theory Spec2Isabelle
  imports Main
begin

section \<open>Python values used by \<^verbatim>\<open>bcbio/cwl/hpc.py\<close>\<close>

text \<open>
  The functions of \<^verbatim>\<open>hpc.py\<close> read four attributes of the parsed command line:
  \<^verbatim>\<open>args.scheduler\<close>, \<^verbatim>\<open>args.queue\<close>, \<^verbatim>\<open>args.resources\<close> and
  \<^verbatim>\<open>args.no_container\<close>. An attribute that is either \<^verbatim>\<open>None\<close> or a \<^verbatim>\<open>str\<close>
  is a \<open>string option\<close>; \<^verbatim>\<open>resources\<close> is a list of strings.
\<close>

record args =
  scheduler :: "string option"
  queue :: "string option"
  resources :: "string list"
  no_container :: bool

text \<open>
  The exceptions that the module can raise: the two \<^verbatim>\<open>raise ValueError(msg)\<close> of
  \<^verbatim>\<open>_args_to_cromwell\<close>, the \<^verbatim>\<open>ValueError\<close> of the \<^verbatim>\<open>%\<close> operator on a
  malformed format string, and the \<^verbatim>\<open>KeyError\<close> of a dictionary subscript with a
  missing key, and the error of \<^verbatim>\<open>open(out_file, "w")\<close> when the file cannot be opened
  for writing (\<^verbatim>\<open>IOError\<close>, with the path). \<open>FormatNotModelled\<close> marks a format
  directive outside the fragment of the \<^verbatim>\<open>%\<close> operator that is modelled below; no
  template of the module contains one.
\<close>

datatype error = ValueError string | KeyError string | IOError string | FormatNotModelled

text \<open>Truth value of \<^verbatim>\<open>None\<close> or a \<^verbatim>\<open>str\<close>: false for \<^verbatim>\<open>None\<close> and for \<^verbatim>\<open>""\<close>.\<close>

definition truthy :: "string option \<Rightarrow> bool" where
  "truthy v = (case v of None \<Rightarrow> False | Some s \<Rightarrow> s \<noteq> [])"

text \<open>
  \<^verbatim>\<open>s.split(sep)\<close> for a one-character separator: cuts at every occurrence, keeps empty
  pieces, and returns one piece more than there are separators.
\<close>

fun py_split :: "char \<Rightarrow> string \<Rightarrow> string list" where
  "py_split sep [] = [[]]"
| "py_split sep (c # cs) =
     (if c = sep then [] # py_split sep cs
      else (case py_split sep cs of [] \<Rightarrow> [[c]] | p # ps \<Rightarrow> (c # p) # ps))"

text \<open>\<^verbatim>\<open>sep.join(xs)\<close>.\<close>

fun py_join :: "string \<Rightarrow> string list \<Rightarrow> string" where
  "py_join sep [] = []"
| "py_join sep [x] = x"
| "py_join sep (x # y # ys) = x @ sep @ py_join sep (y # ys)"

text \<open>
  \<^verbatim>\<open>s.upper()\<close> on ASCII text. The module calls it on \<^verbatim>\<open>args.scheduler\<close> only after
  the scheduler was found among the keys of \<^verbatim>\<open>default_config\<close>, all lower-case ASCII.
\<close>

definition upper_char :: "char \<Rightarrow> char" where
  "upper_char c =
     (case map_of (zip ''abcdefghijklmnopqrstuvwxyz'' ''ABCDEFGHIJKLMNOPQRSTUVWXYZ'') c of
        Some u \<Rightarrow> u | None \<Rightarrow> c)"

definition upper :: "string \<Rightarrow> string" where
  "upper s = map upper_char s"

text \<open>
  \<^verbatim>\<open>os.path.join(a, b)\<close> of \<^verbatim>\<open>posixpath\<close> for two components: \<^verbatim>\<open>b\<close> alone when it
  is absolute, no separator added when \<^verbatim>\<open>a\<close> is empty or ends with one.
\<close>

definition path_join :: "string \<Rightarrow> string \<Rightarrow> string" where
  "path_join a b =
     (if b \<noteq> [] \<and> hd b = CHR ''/'' then b
      else if a = [] \<or> last a = CHR ''/'' then a @ b
      else a @ ''/'' @ b)"

subsection \<open>The \<^verbatim>\<open>%\<close> operator with a dictionary\<close>

text \<open>
  \<^verbatim>\<open>template % mapping\<close> copies the template and replaces each directive. The
  directives of the module's templates all have the shape \<^verbatim>\<open>%(key)s\<close>. CPython reads
  the key by skipping over balanced parentheses: it starts with a count of one open
  parenthesis, adds one at \<^verbatim>\<open>(\<close>, removes one at \<^verbatim>\<open>)\<close>, and stops when the count
  is zero; the key is the text before that last \<^verbatim>\<open>)\<close>. When the template ends first
  it raises \<^verbatim>\<open>ValueError("incomplete format key")\<close>. \<open>scan_key\<close> returns the key and
  the rest of the template, or \<open>None\<close> for the incomplete key.
\<close>

fun scan_key :: "nat \<Rightarrow> string \<Rightarrow> (string \<times> string) option" where
  "scan_key pcount [] = None"
| "scan_key pcount (c # cs) =
     (if c = CHR '')'' then
        (if pcount \<le> 1 then Some ([], cs)
         else map_option (\<lambda>(k, r). (c # k, r)) (scan_key (pcount - 1) cs))
      else if c = CHR ''('' then map_option (\<lambda>(k, r). (c # k, r)) (scan_key (Suc pcount) cs)
      else map_option (\<lambda>(k, r). (c # k, r)) (scan_key pcount cs))"

lemma scan_key_shorter:
  "scan_key pcount cs = Some (k, r) \<Longrightarrow> length r < length cs"
proof (induction pcount cs arbitrary: k r rule: scan_key.induct)
  case (1 pcount)
  then show ?case by simp
next
  case (2 pcount c cs)
  show ?case
  proof (cases "c = CHR '')'' \<and> pcount \<le> 1")
    case True
    with "2.prems" show ?thesis by simp
  next
    case False
    with "2.prems" obtain k' where "scan_key (if c = CHR '')'' then pcount - 1
        else if c = CHR ''('' then Suc pcount else pcount) cs = Some (k', r)"
      by (auto split: if_splits)
    with False "2.IH" have "length r < length cs"
      by (auto split: if_splits)
    then show ?thesis by simp
  qed
qed

text \<open>
  The formatter. After the key it looks the key up in the mapping
  (\<^verbatim>\<open>KeyError\<close> when absent) and reads the conversion; \<^verbatim>\<open>s\<close> inserts the value,
  a string here. A template that ends after \<^verbatim>\<open>%\<close> or after the key raises
  \<^verbatim>\<open>ValueError("incomplete format")\<close>. Flags, widths and the other conversions are
  not modelled.
\<close>

function py_format :: "string \<Rightarrow> (string \<rightharpoonup> string) \<Rightarrow> error + string" where
  "py_format [] m = Inr []"
| "py_format (c # cs) m =
     (if c \<noteq> CHR ''%'' then
        (case py_format cs m of Inl e \<Rightarrow> Inl e | Inr out \<Rightarrow> Inr (c # out))
      else
        (case cs of
           [] \<Rightarrow> Inl (ValueError ''incomplete format'')
         | d # ds \<Rightarrow>
             if d \<noteq> CHR ''('' then Inl FormatNotModelled
             else
               (case scan_key 1 ds of
                  None \<Rightarrow> Inl (ValueError ''incomplete format key'')
                | Some (key, rest) \<Rightarrow>
                    (case m key of
                       None \<Rightarrow> Inl (KeyError key)
                     | Some v \<Rightarrow>
                         (case rest of
                            [] \<Rightarrow> Inl (ValueError ''incomplete format'')
                          | t # rest' \<Rightarrow>
                              if t \<noteq> CHR ''s'' then Inl FormatNotModelled
                              else
                                (case py_format rest' m of
                                   Inl e \<Rightarrow> Inl e
                                 | Inr out \<Rightarrow> Inr (v @ out)))))))"
  by pat_completeness auto
termination
  by (relation "measure (\<lambda>(cs, m). length cs)") (auto dest: scan_key_shorter)

section \<open>The templates\<close>

text \<open>
  The module's triple-quoted literals, character for character: \<^verbatim>\<open>\"\<close> in the source
  is a double quote, \<^verbatim>\<open>\\\<close> a backslash (written \<open>CHR 0x5C\<close> here), and a backslash
  at the end of a source line joins it to the next line without a line break.
\<close>

definition FILESYSTEM_CONFIG :: string where
  \<open>FILESYSTEM_CONFIG =
    ''\<newline>'' @
    ''      filesystems {\<newline>'' @
    ''        local {\<newline>'' @
    ''          localization: ["soft-link"]\<newline>'' @
    ''          caching {\<newline>'' @
    ''            duplication-strategy: ["soft-link"]\<newline>'' @
    ''            hashing-strategy: "path"\<newline>'' @
    ''          }\<newline>'' @
    ''        }\<newline>'' @
    ''      }\<newline>''\<close>

definition CROMWELL_CONFIG :: string where
  \<open>CROMWELL_CONFIG =
    ''\<newline>'' @
    ''include required(classpath("application"))\<newline>'' @
    ''\<newline>'' @
    ''system {\<newline>'' @
    ''  workflow-restart = true\<newline>'' @
    ''}\<newline>'' @
    ''call-caching {\<newline>'' @
    ''  enabled = true\<newline>'' @
    ''}\<newline>'' @
    ''\<newline>'' @
    ''database {\<newline>'' @
    ''  profile = "slick.jdbc.HsqldbProfile$"\<newline>'' @
    ''  db {\<newline>'' @
    ''    driver = "org.hsqldb.jdbcDriver"\<newline>'' @
    ''    url = "jdbc:hsqldb:file:%(work_dir)s/persist/metadata;shutdown=false;hsqldb.tx=mvcc"\<newline>'' @
    ''    connectionTimeout = 20000\<newline>'' @
    ''  }\<newline>'' @
    ''}\<newline>'' @
    ''\<newline>'' @
    ''backend {\<newline>'' @
    ''  providers {\<newline>'' @
    ''    Local {\<newline>'' @
    ''      config {\<newline>'' @
    ''        runtime-attributes = """\<newline>'' @
    ''        Int? cpu\<newline>'' @
    ''        Int? memory_mb\<newline>'' @
    ''        %(docker_attrs)s\<newline>'' @
    ''        %(cwl_attrs)s\<newline>'' @
    ''        """\<newline>'' @
    ''        %(submit_docker)s\<newline>'' @
    ''        %(filesystem)s\<newline>'' @
    ''      }\<newline>'' @
    ''    }\<newline>'' @
    ''%(hpc)s\<newline>'' @
    ''  }\<newline>'' @
    ''}\<newline>''\<close>

definition HPC_CONFIGS_slurm :: string where
  \<open>HPC_CONFIGS_slurm =
    ''\<newline>'' @
    ''    SLURM {\<newline>'' @
    ''      actor-factory = "cromwell.backend.impl.sfs.config.ConfigBackendLifecycleActorFactory"\<newline>'' @
    ''      config {\<newline>'' @
    ''        runtime-attributes = """\<newline>'' @
    ''        Int cpu = 1\<newline>'' @
    ''        Int memory_mb = 2048\<newline>'' @
    ''        String queue = "%(queue)s"\<newline>'' @
    ''        String timelimit = "%(timelimit)s"\<newline>'' @
    ''        String account = "%(account)s"\<newline>'' @
    ''        %(docker_attrs)s\<newline>'' @
    ''        %(cwl_attrs)s\<newline>'' @
    ''        """\<newline>'' @
    ''        submit = """\<newline>'' @
    ''            sbatch -J ${job_name} -D ${cwd} -o ${out} -e ${err} -t ${timelimit} -p ${queue} '' @
    ''            ${"--cpus-per-task=" + cpu} --mem=${memory_mb} ${account} '' @
    ''            --wrap "/usr/bin/env bash ${script}"\<newline>'' @
    ''        """\<newline>'' @
    ''        kill = "scancel ${job_id}"\<newline>'' @
    ''        check-alive = "squeue -j ${job_id}"\<newline>'' @
    ''        job-id-regex = "Submitted batch job ('' @ [CHR 0x5C, CHR 0x5C] @ ''d+).*"\<newline>'' @
    ''        %(filesystem)s\<newline>'' @
    ''      }\<newline>'' @
    ''    }\<newline>''\<close>

definition HPC_CONFIGS_sge :: string where
  \<open>HPC_CONFIGS_sge =
    ''\<newline>'' @
    ''    SGE {\<newline>'' @
    ''      actor-factory = "cromwell.backend.impl.sfs.config.ConfigBackendLifecycleActorFactory"\<newline>'' @
    ''      config {\<newline>'' @
    ''        runtime-attributes = """\<newline>'' @
    ''        Int cpu = 1\<newline>'' @
    ''        Int memory_mb = 2048\<newline>'' @
    ''        String queue = "%(queue)s"\<newline>'' @
    ''        String pename = "%(pename}s"\<newline>'' @
    ''        String memtype = "%(memtype)s"\<newline>'' @
    ''        %(docker_attrs)s\<newline>'' @
    ''        %(cwl_attrs)s\<newline>'' @
    ''        """\<newline>'' @
    ''        submit = """\<newline>'' @
    ''        qsub -V -w w -j y -N ${job_name} -wd ${cwd} '' @
    ''        -o ${out} -e ${err} -q ${queue} '' @
    ''        -pe ${pename} ${cpu} ${"-l " + mem_type + "=" + memory_mb + "m"} '' @
    ''        /usr/bin/env bash ${script}\<newline>'' @
    ''        """\<newline>'' @
    ''        kill = "qdel ${job_id}"\<newline>'' @
    ''        check-alive = "qstat -j ${job_id}"\<newline>'' @
    ''        job-id-regex = "('' @ [CHR 0x5C, CHR 0x5C] @ ''d+)"\<newline>'' @
    ''        %(filesystem)s\<newline>'' @
    ''      }\<newline>'' @
    ''    }\<newline>''\<close>

definition HPC_CONFIGS_pbspro :: string where
  \<open>HPC_CONFIGS_pbspro =
    ''\<newline>'' @
    ''    PBSPRO {\<newline>'' @
    ''      actor-factory = "cromwell.backend.impl.sfs.config.ConfigBackendLifecycleActorFactory"\<newline>'' @
    ''      config {\<newline>'' @
    ''        runtime-attributes = """\<newline>'' @
    ''        Int cpu = 1\<newline>'' @
    ''        Int memory_mb = 2048\<newline>'' @
    ''        String queue = "%(queue)s"\<newline>'' @
    ''        String account = "%(account)s"\<newline>'' @
    ''        String walltime = "%(walltime)s"\<newline>'' @
    ''        %(docker_attrs)s\<newline>'' @
    ''        %(cwl_attrs)s\<newline>'' @
    ''        """\<newline>'' @
    ''        submit = """\<newline>'' @
    ''        qsub -V -l wd -N ${job_name} -o ${out} -e ${err} -q ${queue} -l walltime=${walltime} '' @
    ''        %(cpu_and_mem)s '' @
    ''        -- /usr/bin/env bash ${script}\<newline>'' @
    ''        """\<newline>'' @
    ''        kill = "qdel ${job_id}"\<newline>'' @
    ''        check-alive = "qstat -j ${job_id}"\<newline>'' @
    ''        job-id-regex = "('' @ [CHR 0x5C, CHR 0x5C] @ ''d+)"\<newline>'' @
    ''        %(filesystem)s\<newline>'' @
    ''      }\<newline>'' @
    ''    }\<newline>'' @
    ''\<newline>''\<close>

definition HPC_CONFIGS_torque :: string where
  \<open>HPC_CONFIGS_torque =
    ''\<newline>'' @
    ''    TORQUE {\<newline>'' @
    ''      actor-factory = "cromwell.backend.impl.sfs.config.ConfigBackendLifecycleActorFactory"\<newline>'' @
    ''      config {\<newline>'' @
    ''        runtime-attributes = """\<newline>'' @
    ''        Int cpu = 1\<newline>'' @
    ''        Int memory_mb = 2048\<newline>'' @
    ''        String queue = "%(queue)s"\<newline>'' @
    ''        String account = "%(account)s"\<newline>'' @
    ''        String walltime = "%(walltime)s"\<newline>'' @
    ''        %(docker_attrs)s\<newline>'' @
    ''        %(cwl_attrs)s\<newline>'' @
    ''        """\<newline>'' @
    ''        submit = """\<newline>'' @
    ''        qsub -V -l wd -N ${job_name} -o ${out} -e ${err} -q ${queue} '' @
    ''        -l nodes=1:ppn=${cpu} -l mem=${memory_mb}mb -l walltime=${walltime} '' @
    ''        -- /usr/bin/env bash ${script}\<newline>'' @
    ''        """\<newline>'' @
    ''        kill = "qdel ${job_id}"\<newline>'' @
    ''        check-alive = "qstat -j ${job_id}"\<newline>'' @
    ''        job-id-regex = "('' @ [CHR 0x5C, CHR 0x5C] @ ''d+)"\<newline>'' @
    ''        %(filesystem)s\<newline>'' @
    ''      }\<newline>'' @
    ''    }\<newline>''\<close>

text \<open>\<^verbatim>\<open>HPC_CONFIGS\<close>: a dictionary with four keys. It has no entry for \<^verbatim>\<open>lsf\<close>.\<close>

definition HPC_CONFIGS :: "string \<rightharpoonup> string" where
  "HPC_CONFIGS =
     [''slurm'' \<mapsto> HPC_CONFIGS_slurm,
      ''sge'' \<mapsto> HPC_CONFIGS_sge,
      ''pbspro'' \<mapsto> HPC_CONFIGS_pbspro,
      ''torque'' \<mapsto> HPC_CONFIGS_torque]"

section \<open>\<^verbatim>\<open>_args_to_cromwell\<close>\<close>

text \<open>
  The tables that \<^verbatim>\<open>_args_to_cromwell\<close> builds at each call. They are local to the
  call, so the assignments to \<^verbatim>\<open>config\<close> below never reach a later call.
  (\<^verbatim>\<open>scheduler_map\<close> is built too and never read.)
\<close>

definition default_config :: "string \<rightharpoonup> (string \<rightharpoonup> string)" where
  "default_config =
     [''slurm'' \<mapsto> [''timelimit'' \<mapsto> ''1-00:00'', ''account'' \<mapsto> ''''],
      ''sge'' \<mapsto> [''memtype'' \<mapsto> ''mem_type'', ''pename'' \<mapsto> ''smp''],
      ''lsf'' \<mapsto> Map.empty,
      ''torque'' \<mapsto> [''walltime'' \<mapsto> ''1-00:00'', ''account'' \<mapsto> ''''],
      ''pbspro'' \<mapsto> [''walltime'' \<mapsto> ''1-00:00'', ''account'' \<mapsto> '''',
                     ''cpu_and_mem'' \<mapsto> ''-l select=1:ncpus=${cpu}:mem=${memory_mb}mb'']]"

definition prefixes :: "string \<times> string \<rightharpoonup> string" where
  "prefixes = [(''account'', ''slurm'') \<mapsto> ''-A '', (''account'', ''pbspro'') \<mapsto> ''-A '']"

definition custom :: "string \<times> string \<rightharpoonup> string \<times> string" where
  "custom = [(''noselect'', ''pbspro'') \<mapsto> (''cpu_and_mem'', ''-l ncpus=${cpu} -l mem=${memory_mb}mb'')]"

text \<open>
  The body of the inner loop, for one piece \<^verbatim>\<open>r\<close> of a resource string:
  \<^verbatim>\<open>parts = r.split("=")\<close>; two parts set \<^verbatim>\<open>config[key]\<close> to the prefix of
  \<^verbatim>\<open>(key, scheduler)\<close> (empty when there is none) followed by the value; one part that
  is in \<^verbatim>\<open>custom\<close> with the scheduler sets the custom key; anything else does nothing.
\<close>

definition apply_resource :: "string \<Rightarrow> string \<Rightarrow> (string \<rightharpoonup> string) \<Rightarrow> (string \<rightharpoonup> string)" where
  "apply_resource sched r config =
     (case py_split CHR ''='' r of
        [key, val] \<Rightarrow>
          config(key \<mapsto> (case prefixes (key, sched) of None \<Rightarrow> [] | Some p \<Rightarrow> p) @ val)
      | [p] \<Rightarrow>
          (case custom (p, sched) of
             Some (key, val) \<Rightarrow> config(key \<mapsto> val)
           | None \<Rightarrow> config)
      | _ \<Rightarrow> config)"

text \<open>The two nested loops over \<^verbatim>\<open>args.resources\<close> and over \<^verbatim>\<open>rs.split(";")\<close>.\<close>

definition apply_resources :: "string \<Rightarrow> string list \<Rightarrow> (string \<rightharpoonup> string) \<Rightarrow> (string \<rightharpoonup> string)" where
  "apply_resources sched rss config =
     fold (\<lambda>rs. fold (apply_resource sched) (py_split CHR '';'' rs)) rss config"

text \<open>
  \<^verbatim>\<open>_args_to_cromwell(args)\<close> returns the triple \<^verbatim>\<open>(cl, config, scheduler)\<close> or
  raises. \<open>the\<close> is applied to \<open>scheduler a\<close> and \<open>queue a\<close> only where \<open>truthy\<close> has
  shown them to be strings.
\<close>

definition args_to_cromwell ::
    "args \<Rightarrow> error + (string list \<times> (string \<rightharpoonup> string) \<times> string option)" where
  "args_to_cromwell a =
     (let cl = [''-Dload-control.memory-threshold-in-mb=1''] in
      if truthy (scheduler a) then
        (let s = the (scheduler a) in
         if default_config s = None then
           Inl (ValueError (''Scheduler not yet supported by Cromwell: '' @ s))
         else if \<not> truthy (queue a) then
           Inl (ValueError ''Need to set queue (-q) for running with an HPC scheduler'')
         else
           (let config = the (default_config s);
                cl = cl @ [''-Dbackend.default='' @ upper s];
                config = config(''queue'' \<mapsto> the (queue a));
                config = apply_resources s (resources a) config
            in Inr (cl, config, Some s)))
      else
        Inr ([''-Dbackend.providers.Local.config.concurrent-job-limit=1''] @ cl, Map.empty, None))"

text \<open>\<^verbatim>\<open>args_to_cromwell_cl(args)\<close>: the first component.\<close>

definition args_to_cromwell_cl :: "args \<Rightarrow> error + string list" where
  "args_to_cromwell_cl a =
     (case args_to_cromwell a of Inl e \<Rightarrow> Inl e | Inr (cl_args, conf_args, sched) \<Rightarrow> Inr cl_args)"

section \<open>\<^verbatim>\<open>create_cromwell_config\<close>\<close>

definition docker_attrs :: "string list" where
  "docker_attrs = [''String? docker'', ''String? docker_user'']"

definition cwl_attrs :: "string list" where
  "cwl_attrs =
     [''Int? cpuMin'', ''Int? cpuMax'', ''Int? memoryMin'', ''Int? memoryMax'', ''String? outDirMin'',
      ''String? outDirMax'', ''String? tmpDirMin'', ''String? tmpDirMax'']"

definition std_args :: "args \<Rightarrow> (string \<rightharpoonup> string)" where
  \<open>std_args a =
     [''docker_attrs'' \<mapsto> (if no_container a then [] else py_join ''\<newline>        '' docker_attrs),
      ''submit_docker'' \<mapsto> (if no_container a then ''submit-docker: ""'' else []),
      ''cwl_attrs'' \<mapsto> py_join ''\<newline>        '' cwl_attrs,
      ''filesystem'' \<mapsto> FILESYSTEM_CONFIG]\<close>

text \<open>
  The file system, passed in and returned: the contents of the files, and for each path
  whether \<^verbatim>\<open>open(path, "w")\<close> succeeds in this state (the directory exists, the
  permissions allow it). \<^verbatim>\<open>open(out_file, "w")\<close> raises when the path cannot be
  opened; otherwise it creates or empties the file before the text to write is computed,
  and the text is then written whole. An exception raised before \<^verbatim>\<open>open\<close> leaves the
  file system as it was.
\<close>

record filesystem =
  files :: "string \<rightharpoonup> string"
  writable :: "string \<Rightarrow> bool"

definition create_cromwell_config ::
    "args \<Rightarrow> string \<Rightarrow> filesystem \<Rightarrow> (error + string) \<times> filesystem" where
  "create_cromwell_config a work_dir fs =
     (let out_file = path_join work_dir ''bcbio-cromwell.conf'';
          std = std_args a
      in case args_to_cromwell a of
           Inl e \<Rightarrow> (Inl e, fs)
         | Inr (cl_args, conf_args, sched) \<Rightarrow>
             (let conf_args = conf_args ++ std;
                  hpc = (if truthy sched then
                           (case HPC_CONFIGS (the sched) of
                              None \<Rightarrow> Inl (KeyError (the sched))
                            | Some template \<Rightarrow> py_format template conf_args)
                         else Inr [])
              in case hpc of
                   Inl e \<Rightarrow> (Inl e, fs)
                 | Inr hpc_text \<Rightarrow>
                     (let main_config = [''hpc'' \<mapsto> hpc_text, ''work_dir'' \<mapsto> work_dir] ++ std
                      in if \<not> writable fs out_file then (Inl (IOError out_file), fs)
                         else
                           (let fs = fs\<lparr>files := (files fs)(out_file \<mapsto> [])\<rparr>
                            in case py_format CROMWELL_CONFIG main_config of
                                 Inl e \<Rightarrow> (Inl e, fs)
                               | Inr text \<Rightarrow>
                                   (Inr out_file, fs\<lparr>files := (files fs)(out_file \<mapsto> text)\<rparr>)))))"

section \<open>Properties of \<^verbatim>\<open>_args_to_cromwell\<close>\<close>

subsection \<open>The three outcomes\<close>

lemma default_config_keys:
  "default_config s \<noteq> None \<longleftrightarrow> s \<in> {''slurm'', ''sge'', ''lsf'', ''torque'', ''pbspro''}"
  by (simp add: default_config_def)

lemma args_to_cromwell_local:
  "\<not> truthy (scheduler a) \<Longrightarrow>
   args_to_cromwell a =
     Inr ([''-Dbackend.providers.Local.config.concurrent-job-limit=1'',
           ''-Dload-control.memory-threshold-in-mb=1''], Map.empty, None)"
  by (simp add: args_to_cromwell_def)

lemma args_to_cromwell_unsupported:
  "scheduler a = Some s \<Longrightarrow> s \<noteq> [] \<Longrightarrow> default_config s = None \<Longrightarrow>
   args_to_cromwell a = Inl (ValueError (''Scheduler not yet supported by Cromwell: '' @ s))"
  by (simp add: args_to_cromwell_def truthy_def)

lemma args_to_cromwell_no_queue:
  "scheduler a = Some s \<Longrightarrow> s \<noteq> [] \<Longrightarrow> default_config s = Some d \<Longrightarrow> \<not> truthy (queue a) \<Longrightarrow>
   args_to_cromwell a = Inl (ValueError ''Need to set queue (-q) for running with an HPC scheduler'')"
  by (simp add: args_to_cromwell_def truthy_def)

lemma args_to_cromwell_hpc:
  "scheduler a = Some s \<Longrightarrow> s \<noteq> [] \<Longrightarrow> default_config s = Some d \<Longrightarrow> queue a = Some q \<Longrightarrow> q \<noteq> [] \<Longrightarrow>
   args_to_cromwell a =
     Inr ([''-Dload-control.memory-threshold-in-mb=1'', ''-Dbackend.default='' @ upper s],
          apply_resources s (resources a) (d(''queue'' \<mapsto> q)), Some s)"
  by (simp add: args_to_cromwell_def truthy_def)

lemma upper_supported:
  "upper ''slurm'' = ''SLURM''" "upper ''sge'' = ''SGE''" "upper ''lsf'' = ''LSF''"
  "upper ''torque'' = ''TORQUE''" "upper ''pbspro'' = ''PBSPRO''"
  by (simp_all add: upper_def upper_char_def)

lemma unsupported_iff:
  "s \<notin> {''slurm'', ''sge'', ''lsf'', ''torque'', ''pbspro''} \<longleftrightarrow> default_config s = None"
  by (cases "default_config s") (simp_all only: default_config_keys [of s, symmetric] simp_thms option.distinct)

lemma supported_iff:
  "s \<in> {''slurm'', ''sge'', ''lsf'', ''torque'', ''pbspro''} \<longleftrightarrow> (\<exists>d. default_config s = Some d)"
  using default_config_keys [of s] by (simp only: not_None_eq)

lemma supported_nonempty: "default_config [] = None"
  by (simp add: default_config_def)

lemma not_truthy_iff: "\<not> truthy v \<longleftrightarrow> v = None \<or> v = Some []"
  by (simp add: truthy_def split: option.splits)

lemma args_to_cromwell_isl:
  "isl (args_to_cromwell a) \<longleftrightarrow>
     (\<exists>s. scheduler a = Some s \<and> s \<noteq> [] \<and> (default_config s = None \<or> \<not> truthy (queue a)))"
proof (cases "scheduler a")
  case None
  then show ?thesis by (simp add: args_to_cromwell_def truthy_def)
next
  case (Some s)
  then show ?thesis by (simp add: args_to_cromwell_def truthy_def Let_def)
qed

lemma default_config_slurm:
  "default_config ''slurm'' = Some [''timelimit'' \<mapsto> ''1-00:00'', ''account'' \<mapsto> '''']"
  by (simp add: default_config_def)


subsection \<open>The loop over the resource overrides\<close>

lemma py_split_absent: "sep \<notin> set r \<Longrightarrow> py_split sep r = [r]"
  by (induction r) auto



lemma apply_resource_keeps_keys:
  "k \<in> dom config \<Longrightarrow> k \<in> dom (apply_resource s r config)"
  by (simp add: apply_resource_def split: list.splits option.splits)

lemma apply_resource_other_key:
  "\<forall>v. py_split CHR ''='' r \<noteq> [k, v] \<Longrightarrow> k \<noteq> ''cpu_and_mem'' \<Longrightarrow>
   apply_resource s r config k = config k"
  by (auto simp: apply_resource_def custom_def split: list.splits option.splits if_splits)

lemma fold_apply_resource_keeps_keys:
  "k \<in> dom config \<Longrightarrow> k \<in> dom (fold (apply_resource s) rs config)"
  by (induction rs arbitrary: config) (simp_all add: apply_resource_keeps_keys)

lemma fold_apply_resource_other_key:
  "\<forall>r \<in> set rs. \<forall>v. py_split CHR ''='' r \<noteq> [k, v] \<Longrightarrow> k \<noteq> ''cpu_and_mem'' \<Longrightarrow>
   fold (apply_resource s) rs config k = config k"
  by (induction rs arbitrary: config) (simp_all add: apply_resource_other_key)

lemma apply_resources_keeps_keys:
  "k \<in> dom config \<Longrightarrow> k \<in> dom (apply_resources s rss config)"
  unfolding apply_resources_def
  by (induction rss arbitrary: config) (simp_all add: fold_apply_resource_keeps_keys)

lemma apply_resources_other_key:
  "\<forall>rs \<in> set rss. \<forall>r \<in> set (py_split CHR '';'' rs). \<forall>v. py_split CHR ''='' r \<noteq> [k, v] \<Longrightarrow>
   k \<noteq> ''cpu_and_mem'' \<Longrightarrow>
   apply_resources s rss config k = config k"
  unfolding apply_resources_def
  by (induction rss arbitrary: config) (simp_all add: fold_apply_resource_other_key)

text \<open>
  \<^verbatim>\<open>split\<close> and \<^verbatim>\<open>join\<close> are inverse to each other on pieces that do not contain the
  separator, so the pieces of an override entry can be named without running the split.
\<close>

lemma py_split_nonempty: "py_split sep r \<noteq> []"
  by (induction r) (simp_all split: list.splits)

lemma py_split_piece: "sep \<notin> set p \<Longrightarrow> py_split sep (p @ sep # rest) = p # py_split sep rest"
  by (induction p) auto

lemma py_split_join:
  "es \<noteq> [] \<Longrightarrow> \<forall>p \<in> set es. sep \<notin> set p \<Longrightarrow> py_split sep (py_join [sep] es) = es"
proof (induction "[sep]" es rule: py_join.induct)
  case 1
  then show ?case by simp
next
  case (2 x)
  then show ?case by (simp add: py_split_absent)
next
  case (3 x y ys)
  then show ?case by (simp add: py_split_piece)
qed

lemma py_split_pieces: "p \<in> set (py_split sep r) \<Longrightarrow> sep \<notin> set p"
proof (induction r arbitrary: p)
  case Nil
  then show ?case by simp
next
  case (Cons c cs)
  show ?case
  proof (cases "c = sep")
    case True
    with Cons show ?thesis by auto
  next
    case False
    obtain x xs where xs: "py_split sep cs = x # xs"
      using py_split_nonempty [of sep cs] by (cases "py_split sep cs") simp_all
    with False Cons.prems have "p = c # x \<or> p \<in> set xs" by simp
    then show ?thesis
    proof
      assume "p = c # x"
      moreover have "sep \<notin> set x" using Cons.IH [of x] xs by simp
      ultimately show ?thesis using False by simp
    next
      assume "p \<in> set xs"
      then show ?thesis using Cons.IH [of p] xs by simp
    qed
  qed
qed

lemma py_join_split: "py_join [sep] (py_split sep r) = r"
proof (induction r)
  case Nil
  then show ?case by simp
next
  case (Cons c cs)
  obtain x xs where xs: "py_split sep cs = x # xs"
    using py_split_nonempty [of sep cs] by (cases "py_split sep cs") simp_all
  show ?case
  proof (cases "c = sep")
    case True
    with Cons xs show ?thesis by simp
  next
    case False
    with Cons xs show ?thesis by (cases xs) simp_all
  qed
qed

lemma py_split_two:
  "py_split sep r = [k, v] \<longleftrightarrow> r = k @ sep # v \<and> sep \<notin> set k \<and> sep \<notin> set v"
proof
  assume h: "py_split sep r = [k, v]"
  have "r = py_join [sep] (py_split sep r)" by (simp only: py_join_split)
  with h have "r = k @ sep # v" by simp
  moreover have "sep \<notin> set k" "sep \<notin> set v"
    using py_split_pieces [of k sep r] py_split_pieces [of v sep r] h by simp_all
  ultimately show "r = k @ sep # v \<and> sep \<notin> set k \<and> sep \<notin> set v" by simp
next
  assume "r = k @ sep # v \<and> sep \<notin> set k \<and> sep \<notin> set v"
  then show "py_split sep r = [k, v]" by (simp add: py_split_piece py_split_absent)
qed

lemma py_split_one: "py_split sep r = [p] \<Longrightarrow> p = r"
  using py_join_split [of sep r] by simp


lemma prefixes_lookup:
  "prefixes (k, s) = (if k = ''account'' \<and> (s = ''slurm'' \<or> s = ''pbspro'') then Some ''-A '' else None)"
  by (simp add: prefixes_def)

lemma custom_lookup:
  "custom (p, s) = (if p = ''noselect'' \<and> s = ''pbspro''
                    then Some (''cpu_and_mem'', ''-l ncpus=${cpu} -l mem=${memory_mb}mb'') else None)"
  by (simp add: custom_def)

lemma apply_resource_assign:
  assumes "CHR ''='' \<notin> set k" "CHR ''='' \<notin> set v"
  shows "apply_resource s (k @ ''='' @ v) config =
           config(k \<mapsto> (if k = ''account'' \<and> (s = ''slurm'' \<or> s = ''pbspro'') then ''-A '' else []) @ v)"
proof -
  have "py_split CHR ''='' (k @ ''='' @ v) = [k, v]"
    using assms by (simp add: py_split_two)
  then show ?thesis by (auto simp: apply_resource_def prefixes_lookup)
qed

lemma apply_resource_untouched:
  assumes "\<forall>v'. r = k @ ''='' @ v' \<longrightarrow> CHR ''='' \<in> set v'"
    and "\<not> (s = ''pbspro'' \<and> k = ''cpu_and_mem'' \<and> r = ''noselect'')"
  shows "apply_resource s r config k = config k"
proof (cases "py_split CHR ''='' r")
  case Nil
  then show ?thesis by (simp add: apply_resource_def)
next
  case (Cons p ps)
  show ?thesis
  proof (cases ps)
    case Nil
    with Cons have "p = r" by (simp add: py_split_one)
    with Cons Nil assms(2) show ?thesis
      by (auto simp: apply_resource_def custom_lookup)
  next
    case ps: (Cons v' qs)
    show ?thesis
    proof (cases qs)
      case Nil
      with Cons ps have "py_split CHR ''='' r = [p, v']" by simp
      then have "r = p @ ''='' @ v'" and "CHR ''='' \<notin> set v'"
        by (simp_all add: py_split_two)
      with assms(1) have "p \<noteq> k" by auto
      with Cons ps Nil show ?thesis by (simp add: apply_resource_def)
    next
      case (Cons x xs)
      with \<open>py_split CHR ''='' r = p # ps\<close> ps show ?thesis by (simp add: apply_resource_def)
    qed
  qed
qed

lemma fold_apply_resource_untouched:
  assumes "\<forall>r \<in> set rs. \<forall>v'. r = k @ ''='' @ v' \<longrightarrow> CHR ''='' \<in> set v'"
    and "s = ''pbspro'' \<and> k = ''cpu_and_mem'' \<longrightarrow> ''noselect'' \<notin> set rs"
  shows "fold (apply_resource s) rs config k = config k"
  using assms
proof (induction rs arbitrary: config)
  case Nil
  then show ?case by simp
next
  case (Cons r rs)
  have "fold (apply_resource s) rs (apply_resource s r config) k = apply_resource s r config k"
    using Cons.prems by (intro Cons.IH) simp_all
  also have "\<dots> = config k"
    using Cons.prems by (intro apply_resource_untouched) auto
  finally show ?case by simp
qed

lemma last_write_wins_pieces:
  assumes "CHR ''='' \<notin> set k" "CHR ''='' \<notin> set v"
    and "\<forall>r \<in> set after. \<forall>v'. r = k @ ''='' @ v' \<longrightarrow> CHR ''='' \<in> set v'"
    and "s = ''pbspro'' \<and> k = ''cpu_and_mem'' \<longrightarrow> ''noselect'' \<notin> set after"
  shows "fold (apply_resource s) (before @ [k @ ''='' @ v] @ after) config k =
           Some ((if k = ''account'' \<and> (s = ''slurm'' \<or> s = ''pbspro'') then ''-A '' else []) @ v)"
proof -
  let ?c = "fold (apply_resource s) before config"
  have "fold (apply_resource s) (before @ [k @ ''='' @ v] @ after) config k =
        fold (apply_resource s) after (apply_resource s (k @ ''='' @ v) ?c) k"
    by simp
  also have "\<dots> = apply_resource s (k @ ''='' @ v) ?c k"
    by (rule fold_apply_resource_untouched [OF assms(3,4)])
  also have "\<dots> = Some ((if k = ''account'' \<and> (s = ''slurm'' \<or> s = ''pbspro'') then ''-A '' else []) @ v)"
    by (simp only: apply_resource_assign [OF assms(1,2)] fun_upd_same)
  finally show ?thesis .
qed

lemma apply_resources_split:
  "apply_resources s rss config = fold (apply_resource s) (concat (map (py_split CHR '';'') rss)) config"
  unfolding apply_resources_def
  by (induction rss arbitrary: config) simp_all

lemma apply_resources_joined:
  assumes "\<forall>es \<in> set ess. es \<noteq> [] \<and> (\<forall>p \<in> set es. CHR '';'' \<notin> set p)"
  shows "apply_resources s (map (py_join '';'') ess) config = fold (apply_resource s) (concat ess) config"
proof -
  have "map (py_split CHR '';'') (map (py_join '';'') ess) = ess"
    using assms by (induction ess) (simp_all add: py_split_join)
  then show ?thesis by (simp only: apply_resources_split)
qed

lemma py_split_each_piece:
  "\<forall>p \<in> set es. sep \<notin> set p \<Longrightarrow> concat (map (py_split sep) es) = es"
  by (induction es) (simp_all add: py_split_absent)

lemma apply_resources_entry_split:
  assumes "es \<noteq> []" "\<forall>p \<in> set es. CHR '';'' \<notin> set p"
  shows "apply_resources s (before @ [py_join '';'' es] @ after) config =
         apply_resources s (before @ es @ after) config"
  by (simp add: apply_resources_split py_split_join [OF assms] py_split_each_piece [OF assms(2)])

lemma args_to_cromwell_resources_cong:
  assumes "\<And>s config. apply_resources s rss config = apply_resources s rss' config"
  shows "args_to_cromwell \<lparr>scheduler = so, queue = qo, resources = rss, no_container = nc\<rparr> =
         args_to_cromwell \<lparr>scheduler = so, queue = qo, resources = rss', no_container = nc\<rparr>"
  by (simp add: args_to_cromwell_def Let_def assms)

lemma assignment_key_unique:
  assumes "CHR ''='' \<notin> set k" "CHR ''='' \<notin> set v" "k' \<noteq> k"
  shows "\<forall>v'. k @ ''='' @ v = k' @ ''='' @ v' \<longrightarrow> CHR ''='' \<in> set v'"
proof (intro allI impI)
  fix v'
  assume eq: "k @ ''='' @ v = k' @ ''='' @ v'"
  show "CHR ''='' \<in> set v'"
  proof (rule ccontr)
    assume v': "CHR ''='' \<notin> set v'"
    let ?n = "\<lambda>xs. length (filter (\<lambda>c. c = CHR ''='') xs)"
    have none: "?n xs = 0" if "CHR ''='' \<notin> set xs" for xs
      using that by (induction xs) auto
    have "?n (k @ ''='' @ v) = 1"
      using none [OF assms(1)] none [OF assms(2)] by simp
    with eq have "?n (k' @ ''='' @ v') = 1" by simp
    then have "?n k' = 0" by simp
    then have "CHR ''='' \<notin> set k'"
      by (induction k') (auto split: if_splits)
    with v' have "py_split CHR ''='' (k' @ CHR ''='' # v') = [k', v']"
      by (simp add: py_split_two)
    moreover have "py_split CHR ''='' (k @ CHR ''='' # v) = [k, v]"
      using assms(1,2) by (simp add: py_split_two)
    ultimately have "k' = k" using eq by simp
    with assms(3) show False by simp
  qed
qed

lemma args_to_cromwell_supported:
  assumes "s \<in> {''slurm'', ''sge'', ''lsf'', ''torque'', ''pbspro''}" "q \<noteq> []"
  shows "\<exists>d. default_config s = Some d \<and>
           args_to_cromwell \<lparr>scheduler = Some s, queue = Some q, resources = rss, no_container = nc\<rparr> =
             Inr ([''-Dload-control.memory-threshold-in-mb=1'', ''-Dbackend.default='' @ upper s],
                  apply_resources s rss (d(''queue'' \<mapsto> q)), Some s)"
proof -
  from assms(1) obtain d where d: "default_config s = Some d"
    by (simp only: supported_iff) blast
  then have "s \<noteq> []" using supported_nonempty by auto
  with d assms(2) show ?thesis
    using args_to_cromwell_hpc [of "\<lparr>scheduler = Some s, queue = Some q, resources = rss, no_container = nc\<rparr>" s d q]
    by simp
qed

subsection \<open>Local runs\<close>

text \<open>
  C10: when the request sets no scheduler (\<^verbatim>\<open>None\<close> or the empty string),
  \<^verbatim>\<open>_args_to_cromwell\<close> returns the empty configuration mapping, whatever the queue
  and the resource overrides are: the queue is not checked and the overrides are not
  read. The command line is the local one and the returned scheduler is \<^verbatim>\<open>None\<close>.
\<close>

theorem local_mode_config_empty:
  "scheduler a = None \<or> scheduler a = Some [] \<Longrightarrow>
   args_to_cromwell a =
     Inr ([''-Dbackend.providers.Local.config.concurrent-job-limit=1'',
           ''-Dload-control.memory-threshold-in-mb=1''], Map.empty, None)"
  using args_to_cromwell_local [of a] by (simp only: not_truthy_iff)

theorem local_mode_config_empty_witness:
  "args_to_cromwell \<lparr>scheduler = None, queue = None, resources = [''account=X;noselect''], no_container = False\<rparr> =
     Inr ([''-Dbackend.providers.Local.config.concurrent-job-limit=1'',
           ''-Dload-control.memory-threshold-in-mb=1''], Map.empty, None)
   \<and> args_to_cromwell \<lparr>scheduler = Some [], queue = Some ''q1'', resources = [''queue=q2''], no_container = True\<rparr> =
     Inr ([''-Dbackend.providers.Local.config.concurrent-job-limit=1'',
           ''-Dload-control.memory-threshold-in-mb=1''], Map.empty, None)"
  using
    local_mode_config_empty [of "\<lparr>scheduler = None, queue = None, resources = [''account=X;noselect''], no_container = False\<rparr>"]
    local_mode_config_empty [of "\<lparr>scheduler = Some [], queue = Some ''q1'', resources = [''queue=q2''], no_container = True\<rparr>"]
  by simp

subsection \<open>Validation failures\<close>

text \<open>
  C3: \<^verbatim>\<open>_args_to_cromwell\<close> raises exactly when the request sets a scheduler and
  either the scheduler is not one of slurm, sge, lsf, torque, pbspro, or the queue is
  \<^verbatim>\<open>None\<close> or empty. An unsupported scheduler raises the error with the message
  \<^verbatim>\<open>Scheduler not yet supported by Cromwell: <scheduler>\<close> (also when the queue is
  missing too: this check comes first); a supported scheduler without a queue raises
  the error with the message \<^verbatim>\<open>Need to set queue (-q) for running with an HPC scheduler\<close>.
  Both are \<^verbatim>\<open>ValueError\<close>s; their messages differ for every scheduler name, which
  is how a caller tells them apart.
\<close>

theorem args_to_cromwell_raises:
  "(isl (args_to_cromwell a) \<longleftrightarrow>
      (\<exists>s. scheduler a = Some s \<and> s \<noteq> [] \<and>
           (s \<notin> {''slurm'', ''sge'', ''lsf'', ''torque'', ''pbspro''} \<or> queue a = None \<or> queue a = Some [])))
   \<and> (\<forall>s. scheduler a = Some s \<and> s \<noteq> [] \<and> s \<notin> {''slurm'', ''sge'', ''lsf'', ''torque'', ''pbspro''} \<longrightarrow>
          args_to_cromwell a = Inl (ValueError (''Scheduler not yet supported by Cromwell: '' @ s)))
   \<and> (\<forall>s. scheduler a = Some s \<and> s \<in> {''slurm'', ''sge'', ''lsf'', ''torque'', ''pbspro''} \<and>
            (queue a = None \<or> queue a = Some []) \<longrightarrow>
          args_to_cromwell a = Inl (ValueError ''Need to set queue (-q) for running with an HPC scheduler''))
   \<and> (\<forall>s. ValueError (''Scheduler not yet supported by Cromwell: '' @ s) \<noteq>
            ValueError ''Need to set queue (-q) for running with an HPC scheduler'')"
proof (intro conjI allI impI)
  show "isl (args_to_cromwell a) \<longleftrightarrow>
      (\<exists>s. scheduler a = Some s \<and> s \<noteq> [] \<and>
           (s \<notin> {''slurm'', ''sge'', ''lsf'', ''torque'', ''pbspro''} \<or> queue a = None \<or> queue a = Some []))"
    by (simp only: unsupported_iff args_to_cromwell_isl not_truthy_iff disj_assoc)
next
  fix s
  assume "scheduler a = Some s \<and> s \<noteq> [] \<and> s \<notin> {''slurm'', ''sge'', ''lsf'', ''torque'', ''pbspro''}"
  then have "scheduler a = Some s" "s \<noteq> []" "default_config s = None"
    by (simp_all only: unsupported_iff simp_thms)
  then show "args_to_cromwell a = Inl (ValueError (''Scheduler not yet supported by Cromwell: '' @ s))"
    by (rule args_to_cromwell_unsupported)
next
  fix s
  assume "scheduler a = Some s \<and> s \<in> {''slurm'', ''sge'', ''lsf'', ''torque'', ''pbspro''} \<and>
            (queue a = None \<or> queue a = Some [])"
  then have s: "scheduler a = Some s" and "\<exists>d. default_config s = Some d" and q: "\<not> truthy (queue a)"
    by (simp_all only: supported_iff not_truthy_iff simp_thms)
  then obtain d where d: "default_config s = Some d" by blast
  then have "s \<noteq> []" using supported_nonempty by auto
  with s d q show "args_to_cromwell a = Inl (ValueError ''Need to set queue (-q) for running with an HPC scheduler'')"
    by (simp add: args_to_cromwell_no_queue)
next
  fix s :: string
  show "ValueError (''Scheduler not yet supported by Cromwell: '' @ s) \<noteq>
            ValueError ''Need to set queue (-q) for running with an HPC scheduler''"
    by simp
qed


theorem args_to_cromwell_raises_witness:
  "args_to_cromwell \<lparr>scheduler = Some ''unknown'', queue = Some ''q1'', resources = [], no_container = False\<rparr>
     = Inl (ValueError ''Scheduler not yet supported by Cromwell: unknown'')
   \<and> args_to_cromwell \<lparr>scheduler = Some ''slurm'', queue = None, resources = [], no_container = False\<rparr>
     = Inl (ValueError ''Need to set queue (-q) for running with an HPC scheduler'')
   \<and> \<not> isl (args_to_cromwell \<lparr>scheduler = Some ''slurm'', queue = Some ''q1'', resources = [], no_container = False\<rparr>)"
  using
    args_to_cromwell_raises [of "\<lparr>scheduler = Some ''unknown'', queue = Some ''q1'', resources = [], no_container = False\<rparr>"]
    args_to_cromwell_raises [of "\<lparr>scheduler = Some ''slurm'', queue = None, resources = [], no_container = False\<rparr>"]
    args_to_cromwell_raises [of "\<lparr>scheduler = Some ''slurm'', queue = Some ''q1'', resources = [], no_container = False\<rparr>"]
  by simp

subsection \<open>Command-line flags\<close>

text \<open>
  C7: with no scheduler, \<^verbatim>\<open>args_to_cromwell_cl\<close> returns a list that holds both
  \<^verbatim>\<open>-Dbackend.providers.Local.config.concurrent-job-limit=1\<close> and
  \<^verbatim>\<open>-Dload-control.memory-threshold-in-mb=1\<close>. With a supported scheduler and a
  non-empty queue it returns exactly the memory-threshold flag followed by
  \<^verbatim>\<open>-Dbackend.default=\<close> and the scheduler name in upper case, and the local
  concurrent-job-limit flag is not in the list.
\<close>

theorem args_to_cromwell_cl_flags:
  "(scheduler a = None \<or> scheduler a = Some [] \<longrightarrow>
      (\<exists>cl. args_to_cromwell_cl a = Inr cl
         \<and> ''-Dbackend.providers.Local.config.concurrent-job-limit=1'' \<in> set cl
         \<and> ''-Dload-control.memory-threshold-in-mb=1'' \<in> set cl))
   \<and> ((s, u) \<in> {(''slurm'', ''SLURM''), (''sge'', ''SGE''), (''lsf'', ''LSF''),
                    (''torque'', ''TORQUE''), (''pbspro'', ''PBSPRO'')}
        \<and> scheduler a = Some s \<and> queue a = Some q \<and> q \<noteq> [] \<longrightarrow>
      args_to_cromwell_cl a =
        Inr [''-Dload-control.memory-threshold-in-mb=1'', ''-Dbackend.default='' @ u]
      \<and> (\<forall>cl. args_to_cromwell_cl a = Inr cl \<longrightarrow>
             ''-Dbackend.providers.Local.config.concurrent-job-limit=1'' \<notin> set cl))"
proof (intro conjI impI)
  assume "scheduler a = None \<or> scheduler a = Some []"
  then have "\<not> truthy (scheduler a)" by (simp only: not_truthy_iff)
  then show "\<exists>cl. args_to_cromwell_cl a = Inr cl
         \<and> ''-Dbackend.providers.Local.config.concurrent-job-limit=1'' \<in> set cl
         \<and> ''-Dload-control.memory-threshold-in-mb=1'' \<in> set cl"
    by (simp add: args_to_cromwell_cl_def args_to_cromwell_local)
next
  assume h: "(s, u) \<in> {(''slurm'', ''SLURM''), (''sge'', ''SGE''), (''lsf'', ''LSF''),
                    (''torque'', ''TORQUE''), (''pbspro'', ''PBSPRO'')}
        \<and> scheduler a = Some s \<and> queue a = Some q \<and> q \<noteq> []"
  then have su: "s \<in> {''slurm'', ''sge'', ''lsf'', ''torque'', ''pbspro''}" and u: "u = upper s"
    using upper_supported by auto
  then obtain d where d: "default_config s = Some d"
    by (simp only: supported_iff) blast
  then have "s \<noteq> []" using supported_nonempty by auto
  with h d have cl: "args_to_cromwell_cl a =
        Inr [''-Dload-control.memory-threshold-in-mb=1'', ''-Dbackend.default='' @ upper s]"
    by (simp add: args_to_cromwell_cl_def args_to_cromwell_hpc [of a s d q])
  show "args_to_cromwell_cl a =
        Inr [''-Dload-control.memory-threshold-in-mb=1'', ''-Dbackend.default='' @ u]"
    using cl u by simp
  show "\<forall>cl. args_to_cromwell_cl a = Inr cl \<longrightarrow>
             ''-Dbackend.providers.Local.config.concurrent-job-limit=1'' \<notin> set cl"
    using cl by simp
qed

theorem args_to_cromwell_cl_flags_witness:
  "(\<exists>cl. args_to_cromwell_cl \<lparr>scheduler = None, queue = None, resources = [], no_container = False\<rparr> = Inr cl
       \<and> ''-Dbackend.providers.Local.config.concurrent-job-limit=1'' \<in> set cl
       \<and> ''-Dload-control.memory-threshold-in-mb=1'' \<in> set cl)
   \<and> args_to_cromwell_cl \<lparr>scheduler = Some ''torque'', queue = Some ''batch'', resources = [''walltime=2:00''], no_container = False\<rparr> =
       Inr [''-Dload-control.memory-threshold-in-mb=1'', ''-Dbackend.default=TORQUE'']"
  using
    args_to_cromwell_cl_flags [of "\<lparr>scheduler = None, queue = None, resources = [], no_container = False\<rparr>" "''torque''" "''TORQUE''" "''batch''"]
    args_to_cromwell_cl_flags [of "\<lparr>scheduler = Some ''torque'', queue = Some ''batch'', resources = [''walltime=2:00''], no_container = False\<rparr>" "''torque''" "''TORQUE''" "''batch''"]
  by simp

subsection \<open>Resource overrides\<close>

text \<open>
  C4: overrides are applied in order, the last write to a key wins, and the prefix of the
  (key, scheduler) pair is put before the value. For every supported scheduler, every
  non-empty queue and every list of override entries, each entry given by its pieces
  (the entry is the pieces joined with \<^verbatim>\<open>;\<close>): when the pieces of all entries, in
  order, are \<open>before\<close>, then \<open>k=v\<close>, then \<open>after\<close>, and no piece of \<open>after\<close> assigns
  \<open>k\<close> again (none is \<open>k=v'\<close> with \<open>v'\<close> free of \<^verbatim>\<open>=\<close>, and for the key
  \<^verbatim>\<open>cpu_and_mem\<close> under pbspro none is \<^verbatim>\<open>noselect\<close>), the returned mapping binds
  \<open>k\<close> to the prefix followed by \<open>v\<close>. The prefix is \<^verbatim>\<open>-A \<close> for the key
  \<^verbatim>\<open>account\<close> under slurm and pbspro and empty for every other key and scheduler.
  The instance of the claim, slurm with \<^verbatim>\<open>["account=A1", "account=A2"]\<close> giving
  \<^verbatim>\<open>-A A2\<close>, is the first part of the witness; the second swaps the two entries,
  the third has a write in the first entry under torque, where no prefix is added.
\<close>

theorem overrides_last_write_wins:
  assumes "s \<in> {''slurm'', ''sge'', ''lsf'', ''torque'', ''pbspro''}" and "q \<noteq> []"
    and "\<forall>es \<in> set ess. es \<noteq> [] \<and> (\<forall>p \<in> set es. CHR '';'' \<notin> set p)"
    and "concat ess = before @ [k @ ''='' @ v] @ after"
    and "CHR ''='' \<notin> set k" and "CHR ''='' \<notin> set v"
    and "\<forall>r \<in> set after. \<forall>v'. r = k @ ''='' @ v' \<longrightarrow> CHR ''='' \<in> set v'"
    and "s = ''pbspro'' \<and> k = ''cpu_and_mem'' \<longrightarrow> ''noselect'' \<notin> set after"
  shows "\<exists>cl config.
      args_to_cromwell \<lparr>scheduler = Some s, queue = Some q,
          resources = map (py_join '';'') ess, no_container = nc\<rparr> = Inr (cl, config, Some s)
      \<and> config k =
          Some ((if k = ''account'' \<and> (s = ''slurm'' \<or> s = ''pbspro'') then ''-A '' else []) @ v)"
proof -
  from args_to_cromwell_supported [OF assms(1,2), of "map (py_join '';'') ess" nc]
  obtain d where a2c:
    "args_to_cromwell \<lparr>scheduler = Some s, queue = Some q,
        resources = map (py_join '';'') ess, no_container = nc\<rparr> =
       Inr ([''-Dload-control.memory-threshold-in-mb=1'', ''-Dbackend.default='' @ upper s],
            apply_resources s (map (py_join '';'') ess) (d(''queue'' \<mapsto> q)), Some s)"
    by (elim exE conjE)
  have "apply_resources s (map (py_join '';'') ess) (d(''queue'' \<mapsto> q)) k =
        fold (apply_resource s) (before @ [k @ ''='' @ v] @ after) (d(''queue'' \<mapsto> q)) k"
    by (simp only: apply_resources_joined [OF assms(3)] assms(4))
  also have "\<dots> = Some ((if k = ''account'' \<and> (s = ''slurm'' \<or> s = ''pbspro'') then ''-A '' else []) @ v)"
    by (rule last_write_wins_pieces [OF assms(5,6,7,8)])
  finally show ?thesis using a2c by (intro exI conjI)
qed

theorem overrides_last_write_wins_witness:
  "(\<exists>cl config.
      args_to_cromwell \<lparr>scheduler = Some ''slurm'', queue = Some ''q1'',
          resources = [''account=A1'', ''account=A2''], no_container = False\<rparr> = Inr (cl, config, Some ''slurm'')
      \<and> config ''account'' = Some ''-A A2'')
   \<and> (\<exists>cl config.
      args_to_cromwell \<lparr>scheduler = Some ''slurm'', queue = Some ''q1'',
          resources = [''account=A2'', ''account=A1''], no_container = False\<rparr> = Inr (cl, config, Some ''slurm'')
      \<and> config ''account'' = Some ''-A A1'')
   \<and> (\<exists>cl config.
      args_to_cromwell \<lparr>scheduler = Some ''torque'', queue = Some ''q1'',
          resources = [''account=A1;walltime=2:00'', ''x=y;noselect''], no_container = False\<rparr> = Inr (cl, config, Some ''torque'')
      \<and> config ''account'' = Some ''A1'')"
  using
    overrides_last_write_wins [of "''slurm''" "''q1''" "[[''account=A1''], [''account=A2'']]"
      "[''account=A1'']" "''account''" "''A2''" "[]" False]
    overrides_last_write_wins [of "''slurm''" "''q1''" "[[''account=A2''], [''account=A1'']]"
      "[''account=A2'']" "''account''" "''A1''" "[]" False]
    overrides_last_write_wins [of "''torque''" "''q1''" "[[''account=A1'', ''walltime=2:00''], [''x=y'', ''noselect'']]"
      "[]" "''account''" "''A1''" "[''walltime=2:00'', ''x=y'', ''noselect'']" False]
  by simp

text \<open>
  C5: an override entry that contains \<^verbatim>\<open>;\<close> is cut into its pieces and each piece is
  applied as an override of its own. First, for every request: an entry that is the
  join of pieces with \<^verbatim>\<open>;\<close> gives the same result as the pieces given as separate
  entries in its place, whatever stands before and after it. Second, for every
  supported scheduler and non-empty queue: the single entry \<open>k1=v1;k2=v2\<close> with two
  different keys binds \<open>k1\<close> to its prefix followed by \<open>v1\<close> and \<open>k2\<close> to its prefix
  followed by \<open>v2\<close>. The instance of the claim, slurm with
  \<^verbatim>\<open>account=X;timelimit=99:00\<close>, is the second part of the witness.
\<close>

theorem semicolon_overrides_split:
  "(es \<noteq> [] \<and> (\<forall>p \<in> set es. CHR '';'' \<notin> set p) \<longrightarrow>
      args_to_cromwell \<lparr>scheduler = so, queue = qo,
          resources = before @ [py_join '';'' es] @ after, no_container = nc\<rparr> =
      args_to_cromwell \<lparr>scheduler = so, queue = qo,
          resources = before @ es @ after, no_container = nc\<rparr>)
   \<and> (s \<in> {''slurm'', ''sge'', ''lsf'', ''torque'', ''pbspro''} \<and> q \<noteq> [] \<and> k1 \<noteq> k2
        \<and> (\<forall>x \<in> {k1, v1, k2, v2}. CHR ''='' \<notin> set x \<and> CHR '';'' \<notin> set x) \<longrightarrow>
      (\<exists>cl config.
         args_to_cromwell \<lparr>scheduler = Some s, queue = Some q,
             resources = [k1 @ ''='' @ v1 @ '';'' @ k2 @ ''='' @ v2], no_container = nc\<rparr> =
           Inr (cl, config, Some s)
         \<and> config k1 =
             Some ((if k1 = ''account'' \<and> (s = ''slurm'' \<or> s = ''pbspro'') then ''-A '' else []) @ v1)
         \<and> config k2 =
             Some ((if k2 = ''account'' \<and> (s = ''slurm'' \<or> s = ''pbspro'') then ''-A '' else []) @ v2)))"
proof (intro conjI impI)
  assume "es \<noteq> [] \<and> (\<forall>p \<in> set es. CHR '';'' \<notin> set p)"
  then have es: "es \<noteq> []" "\<forall>p \<in> set es. CHR '';'' \<notin> set p" by simp_all
  show "args_to_cromwell \<lparr>scheduler = so, queue = qo,
          resources = before @ [py_join '';'' es] @ after, no_container = nc\<rparr> =
      args_to_cromwell \<lparr>scheduler = so, queue = qo,
          resources = before @ es @ after, no_container = nc\<rparr>"
    by (rule args_to_cromwell_resources_cong) (rule apply_resources_entry_split [OF es])
next
  assume h: "s \<in> {''slurm'', ''sge'', ''lsf'', ''torque'', ''pbspro''} \<and> q \<noteq> [] \<and> k1 \<noteq> k2
        \<and> (\<forall>x \<in> {k1, v1, k2, v2}. CHR ''='' \<notin> set x \<and> CHR '';'' \<notin> set x)"
  then have s: "s \<in> {''slurm'', ''sge'', ''lsf'', ''torque'', ''pbspro''}" and q: "q \<noteq> []"
    and ne: "k1 \<noteq> k2"
    and eq: "CHR ''='' \<notin> set k1" "CHR ''='' \<notin> set v1" "CHR ''='' \<notin> set k2" "CHR ''='' \<notin> set v2"
    and sc: "CHR '';'' \<notin> set k1" "CHR '';'' \<notin> set v1" "CHR '';'' \<notin> set k2" "CHR '';'' \<notin> set v2"
    by simp_all
  let ?p1 = "k1 @ ''='' @ v1" and ?p2 = "k2 @ ''='' @ v2"
  let ?rss = "[k1 @ ''='' @ v1 @ '';'' @ k2 @ ''='' @ v2]"
  have rss: "?rss = map (py_join '';'') [[?p1, ?p2]]" by simp
  have pieces: "\<forall>es \<in> set [[?p1, ?p2]]. es \<noteq> [] \<and> (\<forall>p \<in> set es. CHR '';'' \<notin> set p)"
    using sc by simp
  from args_to_cromwell_supported [OF s q, of ?rss nc]
  obtain d where a2c:
    "args_to_cromwell \<lparr>scheduler = Some s, queue = Some q, resources = ?rss, no_container = nc\<rparr> =
       Inr ([''-Dload-control.memory-threshold-in-mb=1'', ''-Dbackend.default='' @ upper s],
            apply_resources s ?rss (d(''queue'' \<mapsto> q)), Some s)"
    by (elim exE conjE)
  have fold: "apply_resources s ?rss c = fold (apply_resource s) [?p1, ?p2] c" for c
    using apply_resources_joined [OF pieces, of s c] by simp
  have no_noselect: "''noselect'' \<noteq> ?p2"
  proof
    assume "''noselect'' = ?p2"
    then have "CHR ''='' \<in> set ''noselect''" by (simp only: set_append) simp
    then show False by simp
  qed
  have first: "apply_resources s ?rss (d(''queue'' \<mapsto> q)) k1 =
      Some ((if k1 = ''account'' \<and> (s = ''slurm'' \<or> s = ''pbspro'') then ''-A '' else []) @ v1)"
  proof -
    have "apply_resources s ?rss (d(''queue'' \<mapsto> q)) k1 =
          fold (apply_resource s) ([] @ [?p1] @ [?p2]) (d(''queue'' \<mapsto> q)) k1"
      using fold [of "d(''queue'' \<mapsto> q)"] by simp
    also have "\<dots> =
      Some ((if k1 = ''account'' \<and> (s = ''slurm'' \<or> s = ''pbspro'') then ''-A '' else []) @ v1)"
    proof (rule last_write_wins_pieces [OF eq(1,2)])
      show "\<forall>r \<in> set [?p2]. \<forall>v'. r = k1 @ ''='' @ v' \<longrightarrow> CHR ''='' \<in> set v'"
        using assignment_key_unique [OF eq(3,4), of k1] ne by simp
      show "s = ''pbspro'' \<and> k1 = ''cpu_and_mem'' \<longrightarrow> ''noselect'' \<notin> set [?p2]"
        using no_noselect by simp
    qed
    finally show ?thesis .
  qed
  have second: "apply_resources s ?rss (d(''queue'' \<mapsto> q)) k2 =
      Some ((if k2 = ''account'' \<and> (s = ''slurm'' \<or> s = ''pbspro'') then ''-A '' else []) @ v2)"
  proof -
    have "apply_resources s ?rss (d(''queue'' \<mapsto> q)) k2 =
          fold (apply_resource s) ([?p1] @ [?p2] @ []) (d(''queue'' \<mapsto> q)) k2"
      using fold [of "d(''queue'' \<mapsto> q)"] by simp
    also have "\<dots> =
      Some ((if k2 = ''account'' \<and> (s = ''slurm'' \<or> s = ''pbspro'') then ''-A '' else []) @ v2)"
      by (rule last_write_wins_pieces [OF eq(3,4)]) simp_all
    finally show ?thesis .
  qed
  from a2c first second show "\<exists>cl config.
         args_to_cromwell \<lparr>scheduler = Some s, queue = Some q,
             resources = [k1 @ ''='' @ v1 @ '';'' @ k2 @ ''='' @ v2], no_container = nc\<rparr> =
           Inr (cl, config, Some s)
         \<and> config k1 =
             Some ((if k1 = ''account'' \<and> (s = ''slurm'' \<or> s = ''pbspro'') then ''-A '' else []) @ v1)
         \<and> config k2 =
             Some ((if k2 = ''account'' \<and> (s = ''slurm'' \<or> s = ''pbspro'') then ''-A '' else []) @ v2)"
    by (intro exI conjI)
qed

theorem semicolon_overrides_split_witness:
  "args_to_cromwell \<lparr>scheduler = Some ''sge'', queue = Some ''q1'',
        resources = [''a=1'', ''pename=mpi;noselect;memtype=h_vmem'', ''b=2''], no_container = False\<rparr> =
   args_to_cromwell \<lparr>scheduler = Some ''sge'', queue = Some ''q1'',
        resources = [''a=1'', ''pename=mpi'', ''noselect'', ''memtype=h_vmem'', ''b=2''], no_container = False\<rparr>
   \<and> (\<exists>cl config.
      args_to_cromwell \<lparr>scheduler = Some ''slurm'', queue = Some ''q1'',
          resources = [''account=X;timelimit=99:00''], no_container = False\<rparr> = Inr (cl, config, Some ''slurm'')
      \<and> config ''account'' = Some ''-A X'' \<and> config ''timelimit'' = Some ''99:00'')"
  using
    semicolon_overrides_split [of "[''pename=mpi'', ''noselect'', ''memtype=h_vmem'']"
      "Some ''sge''" "Some ''q1''" "[''a=1'']" "[''b=2'']" False
      "''slurm''" "''q1''" "''account''" "''timelimit''" "''X''" "''99:00''"]
  by simp



subsection \<open>The queue\<close>

text \<open>
  C8, as stated: for every supported scheduler and every non-empty queue the returned
  mapping binds \<^verbatim>\<open>queue\<close> to the input queue. The loop over the overrides runs
  after \<^verbatim>\<open>config["queue"] = args.queue\<close> and writes any key it is given, so the
  override \<^verbatim>\<open>queue=q2\<close> replaces the input queue \<^verbatim>\<open>q1\<close>.
\<close>

theorem queue_override_counterexample:
  "\<not> isl (args_to_cromwell \<lparr>scheduler = Some ''slurm'', queue = Some ''q1'',
        resources = [''queue=q2''], no_container = False\<rparr>)
   \<and> fst (snd (projr (args_to_cromwell \<lparr>scheduler = Some ''slurm'', queue = Some ''q1'',
        resources = [''queue=q2''], no_container = False\<rparr>))) ''queue'' = Some ''q2''
   \<and> fst (snd (projr (args_to_cromwell \<lparr>scheduler = Some ''slurm'', queue = Some ''q1'',
        resources = [''queue=q2''], no_container = False\<rparr>))) ''queue'' \<noteq> Some ''q1''"
  by (simp add: args_to_cromwell_hpc [OF _ _ default_config_slurm]
        apply_resources_def apply_resource_def prefixes_def)

text \<open>
  C8, amended: for every supported scheduler, every non-empty queue and all overrides,
  \<^verbatim>\<open>_args_to_cromwell\<close> succeeds and the returned mapping has the key \<^verbatim>\<open>queue\<close>;
  it is bound to the input queue when no piece of an override (cut at \<^verbatim>\<open>;\<close>) has
  the form \<^verbatim>\<open>queue=value\<close>, in particular when there are no overrides.
\<close>

theorem queue_bound_unless_overridden:
  "s \<in> {''slurm'', ''sge'', ''lsf'', ''torque'', ''pbspro''} \<Longrightarrow> q \<noteq> [] \<Longrightarrow>
   \<exists>cl config.
      args_to_cromwell \<lparr>scheduler = Some s, queue = Some q, resources = rss, no_container = nc\<rparr>
        = Inr (cl, config, Some s)
      \<and> ''queue'' \<in> dom config
      \<and> ((\<forall>rs \<in> set rss. \<forall>r \<in> set (py_split CHR '';'' rs). \<forall>v. py_split CHR ''='' r \<noteq> [''queue'', v])
           \<longrightarrow> config ''queue'' = Some q)"
proof -
  assume "s \<in> {''slurm'', ''sge'', ''lsf'', ''torque'', ''pbspro''}" and q: "q \<noteq> []"
  then obtain d where d: "default_config s = Some d"
    by (simp only: supported_iff) blast
  then have s: "s \<noteq> []" using supported_nonempty by auto
  let ?a = "\<lparr>scheduler = Some s, queue = Some q, resources = rss, no_container = nc\<rparr>"
  let ?config = "apply_resources s rss (d(''queue'' \<mapsto> q))"
  have "args_to_cromwell ?a =
      Inr ([''-Dload-control.memory-threshold-in-mb=1'', ''-Dbackend.default='' @ upper s], ?config, Some s)"
    using args_to_cromwell_hpc [of ?a s d q] s d q by simp
  moreover have "''queue'' \<in> dom ?config"
    by (rule apply_resources_keeps_keys) simp
  moreover have "?config ''queue'' = Some q"
    if "\<forall>rs \<in> set rss. \<forall>r \<in> set (py_split CHR '';'' rs). \<forall>v. py_split CHR ''='' r \<noteq> [''queue'', v]"
    using apply_resources_other_key [OF that, of s "d(''queue'' \<mapsto> q)"] by simp
  ultimately show ?thesis by blast
qed

theorem queue_bound_unless_overridden_witness:
  "\<exists>cl config.
      args_to_cromwell \<lparr>scheduler = Some ''sge'', queue = Some ''q1'',
          resources = [''pename=mpi;memtype=h_vmem'', ''noselect''], no_container = False\<rparr>
        = Inr (cl, config, Some ''sge'')
      \<and> ''queue'' \<in> dom config \<and> config ''queue'' = Some ''q1''"
  using queue_bound_unless_overridden [of "''sge''" "''q1''" "[''pename=mpi;memtype=h_vmem'', ''noselect'']" False]
  by simp

section \<open>Properties of the formatter\<close>

text \<open>
  Formatting is compositional on a prefix that formats on its own: every directive that
  starts in such a prefix also ends in it, so the rest of the template is formatted
  independently and the two outputs are joined. The templates are formatted piece by
  piece with this fact.
\<close>

lemma scan_key_append:
  "scan_key pcount ds = Some (k, r) \<Longrightarrow> scan_key pcount (ds @ ys) = Some (k, r @ ys)"
proof (induction pcount ds arbitrary: k r rule: scan_key.induct)
  case (1 pcount)
  then show ?case by simp
next
  case (2 pcount c cs)
  show ?case
  proof (cases "c = CHR '')'' \<and> pcount \<le> 1")
    case True
    with "2.prems" show ?thesis by simp
  next
    case False
    let ?n = "if c = CHR '')'' then pcount - 1 else if c = CHR ''('' then Suc pcount else pcount"
    from False "2.prems" obtain k' where k': "scan_key ?n cs = Some (k', r)" and k: "k = c # k'"
      by (auto split: if_splits)
    with False "2.IH" have "scan_key ?n (cs @ ys) = Some (k', r @ ys)"
      by (auto split: if_splits)
    with False k show ?thesis by (auto split: if_splits)
  qed
qed

lemma py_format_append:
  "py_format xs m = Inr out \<Longrightarrow>
   py_format (xs @ ys) m = (case py_format ys m of Inl e \<Rightarrow> Inl e | Inr out' \<Rightarrow> Inr (out @ out'))"
proof (induction xs m arbitrary: out rule: py_format.induct)
  case (1 m)
  then show ?case by (simp split: sum.splits)
next
  case (2 c cs m)
  show ?case
  proof (cases "c = CHR ''%''")
    case False
    with "2.prems" obtain o1 where o1: "py_format cs m = Inr o1" and out: "out = c # o1"
      by (auto split: sum.splits)
    from "2.IH"(1) [OF False o1] False out show ?thesis
      by (simp split: sum.splits)
  next
    case True
    with "2.prems" obtain ds key rest v rest' o1 where
      cs: "cs = CHR ''('' # ds" and sk: "scan_key 1 ds = Some (key, rest)" and
      v: "m key = Some v" and rest: "rest = CHR ''s'' # rest'" and
      o1: "py_format rest' m = Inr o1" and out: "out = v @ o1"
      by (auto split: list.splits if_splits option.splits sum.splits)
    have sk': "scan_key 1 (ds @ ys) = Some (key, CHR ''s'' # rest' @ ys)"
      using scan_key_append [OF sk, of ys] rest by simp
    have "py_format (rest' @ ys) m = (case py_format ys m of Inl e \<Rightarrow> Inl e | Inr out' \<Rightarrow> Inr (o1 @ out'))"
      using "2.IH"(2) [of "CHR ''(''" ds "(key, rest)" key rest v "CHR ''s''" rest' o1] True cs sk v rest o1
      by simp
    with True cs sk' v out show ?thesis
      by (simp split: sum.splits)
  qed
qed


lemma py_format_ok_append:
  "\<not> isl (py_format xs m) \<Longrightarrow> \<not> isl (py_format ys m) \<Longrightarrow> \<not> isl (py_format (xs @ ys) m)"
proof -
  assume "\<not> isl (py_format xs m)" and ys: "\<not> isl (py_format ys m)"
  then obtain out where "py_format xs m = Inr out" by (cases "py_format xs m") simp_all
  from py_format_append [OF this, of ys] ys show ?thesis
    by (simp split: sum.splits)
qed

lemma py_format_fail_after:
  "\<not> isl (py_format xs m) \<Longrightarrow> py_format ys m = Inl e \<Longrightarrow> py_format (xs @ ys) m = Inl e"
proof -
  assume "\<not> isl (py_format xs m)" and ys: "py_format ys m = Inl e"
  then obtain out where "py_format xs m = Inr out" by (cases "py_format xs m") simp_all
  from py_format_append [OF this, of ys] ys show ?thesis by simp
qed

subsection \<open>Formatting each template\<close>

text \<open>
  The sge template writes the \<^verbatim>\<open>pename\<close> placeholder as \<^verbatim>\<open>%(pename}s\<close>: the key is
  opened with a parenthesis and closed with a brace. The key scan starts there with one
  open parenthesis, every later \<^verbatim>\<open>(\<close> of the template is matched by its own
  \<^verbatim>\<open>)\<close>, and the template ends with the first one still open. The other three
  templates and the top-level template format whenever their keys are bound.
\<close>

lemma sge_format:
  assumes "m ''queue'' \<noteq> None"
  shows "py_format HPC_CONFIGS_sge m = Inl (ValueError ''incomplete format key'')"
  unfolding HPC_CONFIGS_sge_def
  apply ((rule py_format_fail_after, (simp add: assms split: option.splits; fail))+)
  apply (simp add: assms split: option.splits)
  done

lemma slurm_format:
  assumes "m ''queue'' \<noteq> None" "m ''timelimit'' \<noteq> None" "m ''account'' \<noteq> None"
    "m ''docker_attrs'' \<noteq> None" "m ''cwl_attrs'' \<noteq> None" "m ''filesystem'' \<noteq> None"
  shows "\<not> isl (py_format HPC_CONFIGS_slurm m)"
  unfolding HPC_CONFIGS_slurm_def
  by (intro py_format_ok_append) (simp_all add: assms split: option.splits)

lemma torque_format:
  assumes "m ''queue'' \<noteq> None" "m ''walltime'' \<noteq> None" "m ''account'' \<noteq> None"
    "m ''docker_attrs'' \<noteq> None" "m ''cwl_attrs'' \<noteq> None" "m ''filesystem'' \<noteq> None"
  shows "\<not> isl (py_format HPC_CONFIGS_torque m)"
  unfolding HPC_CONFIGS_torque_def
  by (intro py_format_ok_append) (simp_all add: assms split: option.splits)

lemma pbspro_format:
  assumes "m ''queue'' \<noteq> None" "m ''walltime'' \<noteq> None" "m ''account'' \<noteq> None"
    "m ''cpu_and_mem'' \<noteq> None"
    "m ''docker_attrs'' \<noteq> None" "m ''cwl_attrs'' \<noteq> None" "m ''filesystem'' \<noteq> None"
  shows "\<not> isl (py_format HPC_CONFIGS_pbspro m)"
  unfolding HPC_CONFIGS_pbspro_def
  by (intro py_format_ok_append) (simp_all add: assms split: option.splits)

lemma cromwell_format:
  assumes "m ''hpc'' \<noteq> None" "m ''work_dir'' \<noteq> None" "m ''submit_docker'' \<noteq> None"
    "m ''docker_attrs'' \<noteq> None" "m ''cwl_attrs'' \<noteq> None" "m ''filesystem'' \<noteq> None"
  shows "\<not> isl (py_format CROMWELL_CONFIG m)"
  unfolding CROMWELL_CONFIG_def
  by (intro py_format_ok_append) (simp_all add: assms split: option.splits)

section \<open>Properties of \<^verbatim>\<open>create_cromwell_config\<close>\<close>

lemma update_std_args:
  "m k \<noteq> None \<or> k \<in> {''docker_attrs'', ''submit_docker'', ''cwl_attrs'', ''filesystem''} \<Longrightarrow>
   (m ++ std_args a) k \<noteq> None"
  by (cases "std_args a k") (auto simp: map_add_def std_args_def)

lemma HPC_CONFIGS_lookup:
  "HPC_CONFIGS ''lsf'' = None" "HPC_CONFIGS ''sge'' = Some HPC_CONFIGS_sge"
  "HPC_CONFIGS ''slurm'' = Some HPC_CONFIGS_slurm" "HPC_CONFIGS ''torque'' = Some HPC_CONFIGS_torque"
  "HPC_CONFIGS ''pbspro'' = Some HPC_CONFIGS_pbspro"
  by (simp_all add: HPC_CONFIGS_def)

lemma args_to_cromwell_hpc_keys:
  assumes "scheduler a = Some s" "default_config s = Some d" "queue a = Some q" "q \<noteq> []"
  shows "\<exists>cl conf. args_to_cromwell a = Inr (cl, conf, Some s)
           \<and> conf ''queue'' \<noteq> None \<and> (\<forall>k. d k \<noteq> None \<longrightarrow> conf k \<noteq> None)"
proof -
  let ?conf = "apply_resources s (resources a) (d(''queue'' \<mapsto> q))"
  from assms(2) have "s \<noteq> []" using supported_nonempty by auto
  with assms have "args_to_cromwell a =
     Inr ([''-Dload-control.memory-threshold-in-mb=1'', ''-Dbackend.default='' @ upper s], ?conf, Some s)"
    by (simp add: args_to_cromwell_hpc)
  moreover have "k \<in> dom ?conf" if "k \<in> dom (d(''queue'' \<mapsto> q))" for k
    using that by (rule apply_resources_keeps_keys)
  then have "?conf ''queue'' \<noteq> None" and "\<forall>k. d k \<noteq> None \<longrightarrow> ?conf k \<noteq> None"
    by (simp_all add: dom_def)
  ultimately show ?thesis by (intro exI conjI)
qed

lemma render_lsf:
  assumes "scheduler a = Some ''lsf''" "queue a = Some q" "q \<noteq> []"
  shows "create_cromwell_config a w fs = (Inl (KeyError ''lsf''), fs)"
proof -
  have "default_config ''lsf'' = Some Map.empty" by (simp add: default_config_def)
  from args_to_cromwell_hpc_keys [OF assms(1) this assms(2,3)]
  obtain cl conf where "args_to_cromwell a = Inr (cl, conf, Some ''lsf'')" by (elim exE conjE)
  then show ?thesis
    by (simp add: create_cromwell_config_def Let_def truthy_def HPC_CONFIGS_lookup)
qed

lemma render_sge:
  assumes "scheduler a = Some ''sge''" "queue a = Some q" "q \<noteq> []"
  shows "create_cromwell_config a w fs = (Inl (ValueError ''incomplete format key''), fs)"
proof -
  have "default_config ''sge'' = Some [''memtype'' \<mapsto> ''mem_type'', ''pename'' \<mapsto> ''smp'']"
    by (simp add: default_config_def)
  from args_to_cromwell_hpc_keys [OF assms(1) this assms(2,3)]
  obtain cl conf where a2c: "args_to_cromwell a = Inr (cl, conf, Some ''sge'')"
    and q: "conf ''queue'' \<noteq> None" by (elim exE conjE)
  have "(conf ++ std_args a) ''queue'' \<noteq> None"
    by (rule update_std_args) (simp add: q)
  then have "py_format HPC_CONFIGS_sge (conf ++ std_args a) = Inl (ValueError ''incomplete format key'')"
    by (rule sge_format)
  with a2c show ?thesis
    by (simp add: create_cromwell_config_def Let_def truthy_def HPC_CONFIGS_lookup)
qed

lemma main_config_format:
  "\<not> isl (py_format CROMWELL_CONFIG ([''hpc'' \<mapsto> h, ''work_dir'' \<mapsto> w] ++ std_args a))"
  by (rule cromwell_format; rule update_std_args; simp)

lemma render_writes:
  assumes "args_to_cromwell a = Inr (cl, conf, sched)"
    and "\<not> truthy sched \<or> (\<exists>t. HPC_CONFIGS (the sched) = Some t \<and> \<not> isl (py_format t (conf ++ std_args a)))"
  shows "\<exists>out. \<forall>fs. create_cromwell_config a w fs =
           (if writable fs (path_join w ''bcbio-cromwell.conf'')
            then (Inr (path_join w ''bcbio-cromwell.conf''),
                  fs\<lparr>files := (files fs)(path_join w ''bcbio-cromwell.conf'' \<mapsto> out)\<rparr>)
            else (Inl (IOError (path_join w ''bcbio-cromwell.conf'')), fs))"
proof -
  let ?p = "path_join w ''bcbio-cromwell.conf''"
  let ?hpc = "if truthy sched then
                (case HPC_CONFIGS (the sched) of None \<Rightarrow> Inl (KeyError (the sched))
                 | Some template \<Rightarrow> py_format template (conf ++ std_args a))
              else Inr []"
  from assms(2) obtain h where h: "?hpc = Inr h"
    by (cases ?hpc) (auto split: if_splits)
  obtain out where out: "py_format CROMWELL_CONFIG ([''hpc'' \<mapsto> h, ''work_dir'' \<mapsto> w] ++ std_args a) = Inr out"
    using main_config_format [of h w a]
    by (cases "py_format CROMWELL_CONFIG ([''hpc'' \<mapsto> h, ''work_dir'' \<mapsto> w] ++ std_args a)") simp_all
  have "create_cromwell_config a w fs =
           (if writable fs ?p then (Inr ?p, fs\<lparr>files := (files fs)(?p \<mapsto> out)\<rparr>)
            else (Inl (IOError ?p), fs))" for fs
  proof -
    have "create_cromwell_config a w fs =
        (if \<not> writable fs ?p then (Inl (IOError ?p), fs)
         else (let fs = fs\<lparr>files := (files fs)(?p \<mapsto> [])\<rparr>
               in case py_format CROMWELL_CONFIG ([''hpc'' \<mapsto> h, ''work_dir'' \<mapsto> w] ++ std_args a) of
                    Inl e \<Rightarrow> (Inl e, fs)
                  | Inr text \<Rightarrow> (Inr ?p, fs\<lparr>files := (files fs)(?p \<mapsto> text)\<rparr>)))"
      unfolding create_cromwell_config_def Let_def assms(1) by (simp only: h sum.case prod.case)
    also have "\<dots> = (if writable fs ?p then (Inr ?p, fs\<lparr>files := (files fs)(?p \<mapsto> out)\<rparr>)
            else (Inl (IOError ?p), fs))"
      unfolding out Let_def by simp
    finally show ?thesis .
  qed
  then show ?thesis by (intro exI allI)
qed

lemma render_local:
  assumes "\<not> truthy (scheduler a)"
  shows "\<exists>out. \<forall>fs. create_cromwell_config a w fs =
           (if writable fs (path_join w ''bcbio-cromwell.conf'')
            then (Inr (path_join w ''bcbio-cromwell.conf''),
                  fs\<lparr>files := (files fs)(path_join w ''bcbio-cromwell.conf'' \<mapsto> out)\<rparr>)
            else (Inl (IOError (path_join w ''bcbio-cromwell.conf'')), fs))"
  by (rule render_writes [OF args_to_cromwell_local [OF assms]]) (simp add: truthy_def)


lemma render_hpc:
  assumes "scheduler a = Some s" "s \<in> {''slurm'', ''torque'', ''pbspro''}" "queue a = Some q" "q \<noteq> []"
  shows "\<exists>out. \<forall>fs. create_cromwell_config a w fs =
           (if writable fs (path_join w ''bcbio-cromwell.conf'')
            then (Inr (path_join w ''bcbio-cromwell.conf''),
                  fs\<lparr>files := (files fs)(path_join w ''bcbio-cromwell.conf'' \<mapsto> out)\<rparr>)
            else (Inl (IOError (path_join w ''bcbio-cromwell.conf'')), fs))"
proof -
  from assms(2) obtain d where d: "default_config s = Some d"
    and keys: "s = ''slurm'' \<longrightarrow> d ''timelimit'' \<noteq> None \<and> d ''account'' \<noteq> None"
      "s = ''torque'' \<longrightarrow> d ''walltime'' \<noteq> None \<and> d ''account'' \<noteq> None"
      "s = ''pbspro'' \<longrightarrow> d ''walltime'' \<noteq> None \<and> d ''account'' \<noteq> None \<and> d ''cpu_and_mem'' \<noteq> None"
    by (auto simp: default_config_def)
  from args_to_cromwell_hpc_keys [OF assms(1) d assms(3,4)]
  obtain cl conf where a2c: "args_to_cromwell a = Inr (cl, conf, Some s)"
    and q: "conf ''queue'' \<noteq> None" and dk: "\<forall>k. d k \<noteq> None \<longrightarrow> conf k \<noteq> None"
    by (elim exE conjE)
  let ?m = "conf ++ std_args a"
  have std: "?m ''queue'' \<noteq> None" "?m ''docker_attrs'' \<noteq> None" "?m ''cwl_attrs'' \<noteq> None"
    "?m ''filesystem'' \<noteq> None"
    by (rule update_std_args, simp add: q)+
  have from_d: "?m k \<noteq> None" if "d k \<noteq> None" for k
    by (rule update_std_args) (simp add: dk that)
  have "\<exists>t. HPC_CONFIGS s = Some t \<and> \<not> isl (py_format t ?m)"
  proof -
    consider "s = ''slurm''" | "s = ''torque''" | "s = ''pbspro''" using assms(2) by auto
    then show ?thesis
    proof cases
      case 1
      with keys(1) std from_d have "\<not> isl (py_format HPC_CONFIGS_slurm ?m)"
        by (intro slurm_format) simp_all
      with 1 show ?thesis by (simp add: HPC_CONFIGS_lookup)
    next
      case 2
      with keys(2) std from_d have "\<not> isl (py_format HPC_CONFIGS_torque ?m)"
        by (intro torque_format) simp_all
      with 2 show ?thesis by (simp add: HPC_CONFIGS_lookup)
    next
      case 3
      with keys(3) std from_d have "\<not> isl (py_format HPC_CONFIGS_pbspro ?m)"
        by (intro pbspro_format) simp_all
      with 3 show ?thesis by (simp add: HPC_CONFIGS_lookup)
    qed
  qed
  then show ?thesis
    by (intro render_writes [OF a2c]) simp
qed

lemma render_shape:
  "(\<exists>e. \<forall>fs. create_cromwell_config a w fs = (Inl e, fs))
   \<or> (\<exists>out. \<forall>fs. create_cromwell_config a w fs =
           (if writable fs (path_join w ''bcbio-cromwell.conf'')
            then (Inr (path_join w ''bcbio-cromwell.conf''),
                  fs\<lparr>files := (files fs)(path_join w ''bcbio-cromwell.conf'' \<mapsto> out)\<rparr>)
            else (Inl (IOError (path_join w ''bcbio-cromwell.conf'')), fs)))"
proof (cases "args_to_cromwell a")
  case (Inl e)
  then have "\<forall>fs. create_cromwell_config a w fs = (Inl e, fs)"
    by (simp add: create_cromwell_config_def Let_def)
  then show ?thesis by (intro disjI1 exI)
next
  case (Inr r)
  obtain cl conf sched where r: "r = (cl, conf, sched)" by (cases r)
  let ?hpc = "if truthy sched then
                (case HPC_CONFIGS (the sched) of None \<Rightarrow> Inl (KeyError (the sched))
                 | Some template \<Rightarrow> py_format template (conf ++ std_args a))
              else Inr []"
  show ?thesis
  proof (cases ?hpc)
    case (Inl e)
    with Inr r have "\<forall>fs. create_cromwell_config a w fs = (Inl e, fs)"
      by (simp add: create_cromwell_config_def Let_def)
    then show ?thesis by (intro disjI1 exI)
  next
    case hpc: (Inr h)
    have "\<not> truthy sched \<or>
        (\<exists>t. HPC_CONFIGS (the sched) = Some t \<and> \<not> isl (py_format t (conf ++ std_args a)))"
    proof (cases "truthy sched")
      case False
      then show ?thesis by (rule disjI1)
    next
      case True
      show ?thesis
      proof (cases "HPC_CONFIGS (the sched)")
        case None
        with True hpc show ?thesis by simp
      next
        case (Some t)
        with True hpc have "py_format t (conf ++ std_args a) = Inr h" by simp
        then have "\<not> isl (py_format t (conf ++ std_args a))" by simp
        with Some show ?thesis by (intro disjI2 exI conjI)
      qed
    qed
    from render_writes [OF Inr [unfolded r] this] show ?thesis by (rule disjI2)
  qed
qed

subsection \<open>The lsf scheduler\<close>

text \<open>
  C1: for scheduler lsf with a non-empty queue the claim is that
  \<^verbatim>\<open>create_cromwell_config\<close> succeeds with an empty HPC block. In the code
  \<^verbatim>\<open>_args_to_cromwell\<close> accepts lsf (it is a key of \<^verbatim>\<open>default_config\<close>), and
  \<^verbatim>\<open>HPC_CONFIGS[scheduler]\<close> then raises \<^verbatim>\<open>KeyError\<close>, since \<^verbatim>\<open>HPC_CONFIGS\<close> has
  no lsf entry; nothing is written. The theorem evaluates the code at
  scheduler lsf, queue q1, no overrides, work directory /work.
\<close>

theorem lsf_render_raises_KeyError:
  "create_cromwell_config
     \<lparr>scheduler = Some ''lsf'', queue = Some ''q1'', resources = [], no_container = False\<rparr> ''/work'' fs
   = (Inl (KeyError ''lsf''), fs)"
  using render_lsf [of "\<lparr>scheduler = Some ''lsf'', queue = Some ''q1'', resources = [], no_container = False\<rparr>"
      "''q1''" "''/work''" fs]
  by simp

subsection \<open>Failures of template filling\<close>

text \<open>
  C2: the claim is that for every supported scheduler with a non-empty queue
  \<^verbatim>\<open>create_cromwell_config\<close> succeeds, template filling never failing. In the code
  the sge template cannot be filled (\<open>sge_format\<close>): the call raises
  \<^verbatim>\<open>ValueError("incomplete format key")\<close> and writes nothing. The theorem evaluates
  the code at scheduler sge, queue q1, no overrides, work directory /work; \<open>render_sge\<close>
  shows the same for every sge request with a queue, \<open>render_hpc\<close> that slurm, torque
  and pbspro requests succeed.
\<close>

theorem sge_render_raises_ValueError:
  "create_cromwell_config
     \<lparr>scheduler = Some ''sge'', queue = Some ''q1'', resources = [], no_container = False\<rparr> ''/work'' fs
   = (Inl (ValueError ''incomplete format key''), fs)"
  using render_sge [of "\<lparr>scheduler = Some ''sge'', queue = Some ''q1'', resources = [], no_container = False\<rparr>"
      "''q1''" "''/work''" fs]
  by simp

end
